theory Spec2Isabelle
  imports Main
begin

section \<open>The Fiber adapter for ALB target-group events (fiber/adapterALB.go)\<close>

text \<open>
  The adapter is glue between four packages that are not part of the file verified
  here: the repository's own \<open>core\<close> package (event conversion, the response
  writer, the fallback event, the logged error), \<open>net/http\<close>, \<open>net\<close> and
  \<open>fasthttp\<close>/\<open>fiber\<close>. The functions of the adapter itself (\<open>Proxy\<close>,
  \<open>ProxyWithContext\<close>, \<open>proxyInternal\<close>, \<open>adaptor\<close>) are embedded line by line.
  What they call is either a field of a parameter record (the conversion functions, the
  handler, \<open>GetProxyResponse\<close>, \<open>ResolveTCPAddr\<close>) or a small definition that
  follows the documented contract of the library call.

  Effects are explicit. The only state that outlives a call is fasthttp's request
  pool, threaded through as a list of requests. Everything else a call does besides
  returning (taking from and giving back to the pool, invoking the handler, printing a
  log line) is returned as a list of effects in program order.
\<close>

subsection \<open>Errors and bytes\<close>

text \<open>A Go \<open>error\<close> value carries a message; a nil error is \<open>None\<close> of
  \<open>go_error option\<close>, and a \<open>(value, error)\<close> result is a sum with the error on the
  left.\<close>

datatype go_error = GoError string

fun Error_msg :: "go_error \<Rightarrow> string" where
  "Error_msg (GoError m) = m"

subsection \<open>The events (github.com/aws/aws-lambda-go/events)\<close>

record ALBTargetGroupRequest =
  ev_HTTPMethod :: string
  ev_Path :: string
  ev_QueryStringParameters :: "(string \<times> string) list"
  ev_Headers :: "(string \<times> string) list"
  ev_MultiValueHeaders :: "(string \<times> string list) list"
  ev_Body :: string
  ev_IsBase64Encoded :: bool

record ALBTargetGroupResponse =
  StatusCode :: int
  StatusDescription :: string
  Headers :: "(string \<times> string) list"
  MultiValueHeaders :: "(string \<times> string list) list"
  Body :: string
  IsBase64Encoded :: bool

subsection \<open>The generic request (net/http)\<close>

text \<open>
  \<open>http.Request\<close>, with the fields the adapter reads. \<open>Header\<close> is a Go map from
  a name to its values: it is an association list with one entry per name, listed in the
  order the \<open>range\<close> loop of this run visits the names (Go leaves that order open, so
  every statement about the loop holds for every such list). \<open>Body_reader\<close> is what
  \<open>ioutil.ReadAll\<close> gets from \<open>r.Body\<close>: the bytes, or the reader's error.
\<close>

record http_Request =
  Method :: string
  RequestURI :: string
  Host :: string
  Header :: "(string \<times> string list) list"
  Body_reader :: "go_error + string"
  RemoteAddr :: string

subsection \<open>The engine request and response (fasthttp)\<close>

text \<open>
  \<open>fasthttp.Request\<close>: method, request URI, host, content length, body, and the
  header entries in the order they were written.
\<close>

record Request =
  req_method :: string
  req_requestURI :: string
  req_host :: string
  req_contentLength :: int
  req_body :: string
  req_header :: "(string \<times> string) list"

text \<open>The zero request: what a new \<open>Request\<close> is, and what \<open>Reset\<close> leaves.\<close>

definition Request_zero :: Request where
  "Request_zero =
     \<lparr>req_method = [], req_requestURI = [], req_host = [], req_contentLength = 0, req_body = [], req_header = []\<rparr>"

definition SetContentLength :: "int \<Rightarrow> Request \<Rightarrow> Request" where
  "SetContentLength n req = req\<lparr>req_contentLength := n\<rparr>"

definition BodyWriter_Write :: "string \<Rightarrow> Request \<Rightarrow> Request" where
  "BodyWriter_Write p req = req\<lparr>req_body := req_body req @ p\<rparr>"

definition SetMethod :: "string \<Rightarrow> Request \<Rightarrow> Request" where
  "SetMethod m req = req\<lparr>req_method := m\<rparr>"

definition SetRequestURI :: "string \<Rightarrow> Request \<Rightarrow> Request" where
  "SetRequestURI u req = req\<lparr>req_requestURI := u\<rparr>"

definition SetHost :: "string \<Rightarrow> Request \<Rightarrow> Request" where
  "SetHost h req = req\<lparr>req_host := h\<rparr>"

text \<open>
  Modelled from the spec: \<open>RequestHeader.Set\<close> and \<open>RequestHeader.Add\<close> of
  fasthttp, which are not in the source. The spec: the headers of the fixed set ``are
  set (replacing any existing value) while all other headers are added (preserving
  duplicates/multi-values)''. \<open>Set\<close> drops every entry of the name and writes the
  new one; \<open>Add\<close> writes one more entry. Names are compared as they are written.
\<close>

definition Header_Set :: "string \<Rightarrow> string \<Rightarrow> Request \<Rightarrow> Request" where
  "Header_Set key v req =
     req\<lparr>req_header := filter (\<lambda>kv. fst kv \<noteq> key) (req_header req) @ [(key, v)]\<rparr>"

definition Header_Add :: "string \<Rightarrow> string \<Rightarrow> Request \<Rightarrow> Request" where
  "Header_Add key v req = req\<lparr>req_header := req_header req @ [(key, v)]\<rparr>"

text \<open>All values of a name in the engine request, in the order of the entries.\<close>

definition PeekAll :: "string \<Rightarrow> Request \<Rightarrow> string list" where
  "PeekAll key req = map snd (filter (\<lambda>kv. fst kv = key) (req_header req))"

record Response =
  statusCode :: int
  resp_header :: "(string \<times> string) list"
  resp_body :: string

definition Response_zero :: Response where
  "Response_zero = \<lparr>statusCode = 0, resp_header = [], resp_body = []\<rparr>"

datatype TCPAddr = TCPAddr string nat

record RequestCtx =
  ctx_Request :: Request
  ctx_remoteAddr :: TCPAddr
  ctx_Response :: Response

text \<open>\<open>fctx.Init(req, remoteAddr, nil)\<close> on a zero \<open>RequestCtx\<close>.\<close>

definition Init :: "Request \<Rightarrow> TCPAddr \<Rightarrow> RequestCtx" where
  "Init req remoteAddr =
     \<lparr>ctx_Request = req, ctx_remoteAddr = remoteAddr, ctx_Response = Response_zero\<rparr>"

subsection \<open>The request pool (fasthttp.AcquireRequest, fasthttp.ReleaseRequest)\<close>

text \<open>
  \<open>AcquireRequest\<close> takes a request from the pool, or makes a new one when the pool
  is empty; \<open>ReleaseRequest\<close> resets the request and puts it back.
\<close>

definition AcquireRequest :: "Request list \<Rightarrow> Request \<times> Request list" where
  "AcquireRequest pool =
     (case pool of [] \<Rightarrow> (Request_zero, []) | req # rest \<Rightarrow> (req, rest))"

definition Reset :: "Request \<Rightarrow> Request" where
  "Reset req = Request_zero"

definition ReleaseRequest :: "Request \<Rightarrow> Request list \<Rightarrow> Request list" where
  "ReleaseRequest req pool = Reset req # pool"

text \<open>The pool's invariant: every pooled request has been reset.\<close>

definition pool_reset :: "Request list \<Rightarrow> bool" where
  "pool_reset pool = list_all (\<lambda>req. req = Request_zero) pool"

subsection \<open>Effects\<close>

datatype effect =
    Acquire
  | Release
  | HandlerCall RequestCtx
  | Println string

fun is_HandlerCall :: "effect \<Rightarrow> bool" where
  "is_HandlerCall (HandlerCall c) = True"
| "is_HandlerCall e = False"

subsection \<open>The response writer (core.ProxyResponseWriterALB behind http.ResponseWriter)\<close>

text \<open>
  Modelled from the spec: the response writer of the \<open>core\<close> package, which is not
  in the source. The spec calls it the response-capture object: the adapter writes the
  engine response's ``header set, status code, and body'' into it. It holds the header
  entries, the body bytes, and the status once one has been written.
\<close>

record ProxyResponseWriterALB =
  w_headers :: "(string \<times> string) list"
  w_body :: string
  w_status :: "int option"

definition NewProxyResponseWriterALB :: ProxyResponseWriterALB where
  "NewProxyResponseWriterALB = \<lparr>w_headers = [], w_body = [], w_status = None\<rparr>"

definition w_Header_Add :: "string \<Rightarrow> string \<Rightarrow> ProxyResponseWriterALB \<Rightarrow> ProxyResponseWriterALB" where
  "w_Header_Add k v w = w\<lparr>w_headers := w_headers w @ [(k, v)]\<rparr>"

definition w_Header_Del :: "string \<Rightarrow> ProxyResponseWriterALB \<Rightarrow> ProxyResponseWriterALB" where
  "w_Header_Del k w = w\<lparr>w_headers := filter (\<lambda>kv. fst kv \<noteq> k) (w_headers w)\<rparr>"

definition w_Header_Set :: "string \<Rightarrow> string \<Rightarrow> ProxyResponseWriterALB \<Rightarrow> ProxyResponseWriterALB" where
  "w_Header_Set k v w = w_Header_Add k v (w_Header_Del k w)"

definition WriteHeader :: "int \<Rightarrow> ProxyResponseWriterALB \<Rightarrow> ProxyResponseWriterALB" where
  "WriteHeader status w = w\<lparr>w_status := Some status\<rparr>"

definition Write :: "string \<Rightarrow> ProxyResponseWriterALB \<Rightarrow> ProxyResponseWriterALB" where
  "Write p w = w\<lparr>w_body := w_body w @ p\<rparr>"

text \<open>
  \<open>http.Error(w, error, code)\<close> of net/http: it drops \<open>Content-Length\<close>, sets the
  content type to plain text and \<open>X-Content-Type-Options\<close> to \<open>nosniff\<close>, writes
  the status, and prints the message and a newline as the body.
\<close>

definition http_Error :: "ProxyResponseWriterALB \<Rightarrow> string \<Rightarrow> int \<Rightarrow> ProxyResponseWriterALB" where
  "http_Error w msg code =
     Write (msg @ [CHR 0x0A])
       (WriteHeader code
         (w_Header_Set ''X-Content-Type-Options'' ''nosniff''
           (w_Header_Set ''Content-Type'' ''text/plain; charset=utf-8''
             (w_Header_Del ''Content-Length'' w))))"

subsection \<open>Constants of fiber\<close>

definition StatusInternalServerError :: int where
  "StatusInternalServerError = 500"

text \<open>\<open>utils.StatusMessage\<close>: the entry the adapter looks up; fiber gives the empty
  string for a code without a message.\<close>

definition StatusMessage :: "int \<Rightarrow> string" where
  "StatusMessage status = (if status = 500 then ''Internal Server Error'' else [])"

definition HeaderHost :: string where "HeaderHost = ''Host''"
definition HeaderContentType :: string where "HeaderContentType = ''Content-Type''"
definition HeaderUserAgent :: string where "HeaderUserAgent = ''User-Agent''"
definition HeaderContentLength :: string where "HeaderContentLength = ''Content-Length''"
definition HeaderConnection :: string where "HeaderConnection = ''Connection''"

subsection \<open>What the core package gives (not in the source)\<close>

text \<open>
  Modelled from the spec: \<open>core.GatewayTimeoutALB\<close>, which is not in the source.
  The spec calls it the fixed ``gateway timeout'' Outbound Event, an ``HTTP
  504-equivalent'' response: the status is 504 and nothing else is filled in.
\<close>

definition GatewayTimeoutALB :: ALBTargetGroupResponse where
  "GatewayTimeoutALB =
     \<lparr>StatusCode = 504, StatusDescription = [], Headers = [], MultiValueHeaders = [],
      Body = [], IsBase64Encoded = False\<rparr>"

text \<open>
  Modelled from the spec: \<open>core.NewLoggedError\<close>, which is not in the source. The
  spec calls its result a ``descriptive, logged error'': the error carries the message,
  and the message is printed to the log. Both formats the adapter passes are a fixed
  text followed by \<open>%v\<close>, so the message is that text followed by the cause.
\<close>

definition NewLoggedError :: "string \<Rightarrow> go_error \<Rightarrow> go_error \<times> effect list" where
  "NewLoggedError text err =
     (let msg = text @ Error_msg err in (GoError msg, [Println msg]))"

text \<open>\<open>context.Context\<close>: what \<open>ctx.Err()\<close> says when the conversion looks at it
  (nil while the context is live, the reason once it is cancelled or past its
  deadline).\<close>

record Context =
  ctx_Err :: "go_error option"

subsection \<open>The parameters\<close>

text \<open>
  \<open>FiberLambdaALB\<close> embeds \<open>core.RequestAccessorALB\<close>, whose two conversion
  methods are not in the source, and holds the fiber application, of which the adapter
  uses the handler. The handler takes the request context and leaves it with the
  response filled in.
\<close>

record FiberLambdaALB =
  ProxyEventToHTTPRequest :: "ALBTargetGroupRequest \<Rightarrow> go_error + http_Request"
  EventToRequestWithContext :: "Context \<Rightarrow> ALBTargetGroupRequest \<Rightarrow> go_error + http_Request"
  app_Handler :: "RequestCtx \<Rightarrow> RequestCtx"

text \<open>
  The two other calls whose code is elsewhere: \<open>GetProxyResponse\<close> of the response
  writer (core) and \<open>net.ResolveTCPAddr "tcp"\<close>.
\<close>

record externals =
  GetProxyResponse :: "ProxyResponseWriterALB \<Rightarrow> go_error + ALBTargetGroupResponse"
  ResolveTCPAddr :: "string \<Rightarrow> go_error + TCPAddr"

subsection \<open>adaptor\<close>

text \<open>The inner loop, \<open>for _, v := range val\<close>, with its \<open>switch key\<close>.\<close>

fun range_val :: "string \<Rightarrow> string list \<Rightarrow> Request \<Rightarrow> Request" where
  "range_val key [] req = req"
| "range_val key (v # val) req =
     range_val key val
       (if key = HeaderHost \<or> key = HeaderContentType \<or> key = HeaderUserAgent
           \<or> key = HeaderContentLength \<or> key = HeaderConnection
        then Header_Set key v req
        else Header_Add key v req)"

text \<open>The outer loop, \<open>for key, val := range r.Header\<close>.\<close>

fun range_Header :: "(string \<times> string list) list \<Rightarrow> Request \<Rightarrow> Request" where
  "range_Header [] req = req"
| "range_Header ((key, val) # hs) req = range_Header hs (range_val key val req)"

text \<open>
  The body of \<open>adaptor\<close> from the read of the request body on, given the request
  \<open>req\<close> taken from the pool. It returns the response writer, the request as it was
  left, and the effects.
\<close>

definition adaptor_body ::
  "externals \<Rightarrow> FiberLambdaALB \<Rightarrow> ProxyResponseWriterALB \<Rightarrow> http_Request \<Rightarrow> Request
     \<Rightarrow> ProxyResponseWriterALB \<times> Request \<times> effect list" where
  "adaptor_body x f w r req =
     (case Body_reader r of
        Inl err \<Rightarrow>
          (http_Error w (StatusMessage StatusInternalServerError) StatusInternalServerError,
           req, [])
      | Inr b \<Rightarrow>
          (let req1 = SetContentLength (int (length b)) req;
               req2 = BodyWriter_Write b req1;
               req3 = SetMethod (Method r) req2;
               req4 = SetRequestURI (RequestURI r) req3;
               req5 = SetHost (Host r) req4;
               req6 = range_Header (Header r) req5
           in case ResolveTCPAddr x (RemoteAddr r) of
                Inl err \<Rightarrow>
                  (http_Error w (StatusMessage StatusInternalServerError)
                     StatusInternalServerError,
                   req6, [])
              | Inr remoteAddr \<Rightarrow>
                  (let fctx = Init req6 remoteAddr;
                       fctx' = app_Handler f fctx;
                       w1 = foldl (\<lambda>w' kv. w_Header_Add (fst kv) (snd kv) w') w
                              (resp_header (ctx_Response fctx'));
                       w2 = WriteHeader (statusCode (ctx_Response fctx')) w1;
                       w3 = Write (resp_body (ctx_Response fctx')) w2
                   in (w3, req6, [HandlerCall fctx]))))"

text \<open>
  \<open>adaptor\<close>: \<open>AcquireRequest\<close>, the deferred \<open>ReleaseRequest\<close>, and the body.
  The deferred call runs when the body returns, whichever \<open>return\<close> it takes. The
  handler is a total function here: a handler that panics is outside the model.
\<close>

definition adaptor ::
  "externals \<Rightarrow> FiberLambdaALB \<Rightarrow> ProxyResponseWriterALB \<Rightarrow> http_Request \<Rightarrow> Request list
     \<Rightarrow> ProxyResponseWriterALB \<times> Request list \<times> effect list" where
  "adaptor x f w r pool =
     (case AcquireRequest pool of
        (req, pool1) \<Rightarrow>
          (case adaptor_body x f w r req of
             (w', req', effs) \<Rightarrow>
               (w', ReleaseRequest req' pool1, Acquire # effs @ [Release])))"

subsection \<open>proxyInternal, Proxy, ProxyWithContext\<close>

text \<open>
  A call returns the event and the error (\<open>None\<close> for nil), the pool as it leaves
  it, and the effects. \<open>proxyInternal\<close> takes the conversion's \<open>(req, err)\<close> as one
  sum: it looks at \<open>req\<close> only when \<open>err\<close> is nil.
\<close>

definition proxyInternal ::
  "externals \<Rightarrow> FiberLambdaALB \<Rightarrow> go_error + http_Request \<Rightarrow> Request list
     \<Rightarrow> (ALBTargetGroupResponse \<times> go_error option) \<times> Request list \<times> effect list" where
  "proxyInternal x f conv pool =
     (case conv of
        Inl err \<Rightarrow>
          (case NewLoggedError ''Could not convert proxy event to request: '' err of
             (e, logged) \<Rightarrow> ((GatewayTimeoutALB, Some e), pool, logged))
      | Inr req \<Rightarrow>
          (case adaptor x f NewProxyResponseWriterALB req pool of
             (respWriter, pool', effs) \<Rightarrow>
               (case GetProxyResponse x respWriter of
                  Inl err \<Rightarrow>
                    (case NewLoggedError ''Error while generating proxy response: '' err of
                       (e, logged) \<Rightarrow> ((GatewayTimeoutALB, Some e), pool', effs @ logged))
                | Inr proxyResponse \<Rightarrow> ((proxyResponse, None), pool', effs))))"

definition Proxy ::
  "externals \<Rightarrow> FiberLambdaALB \<Rightarrow> ALBTargetGroupRequest \<Rightarrow> Request list
     \<Rightarrow> (ALBTargetGroupResponse \<times> go_error option) \<times> Request list \<times> effect list" where
  "Proxy x f req pool = proxyInternal x f (ProxyEventToHTTPRequest f req) pool"

definition ProxyWithContext ::
  "externals \<Rightarrow> FiberLambdaALB \<Rightarrow> Context \<Rightarrow> ALBTargetGroupRequest \<Rightarrow> Request list
     \<Rightarrow> (ALBTargetGroupResponse \<times> go_error option) \<times> Request list \<times> effect list" where
  "ProxyWithContext x f ctx req pool =
     proxyInternal x f (EventToRequestWithContext f ctx req) pool"

subsection \<open>Two runs and the order of the header map\<close>

text \<open>
  \<open>r.Header\<close> is a Go map, and the Go runtime picks the order in which a \<open>range\<close>
  loop visits a map anew every time the loop is entered: two runs of \<open>adaptor\<close> on
  the same map may visit its names in different orders. \<open>same_map hs hs'\<close> says that
  \<open>hs\<close> and \<open>hs'\<close> list the same map (the same entries, one per name), in whatever
  orders. \<open>Proxy_visiting x f hs req\<close> is the run of \<open>Proxy\<close> on \<open>req\<close> in which
  the loop visits the entries in the order \<open>hs\<close>; it is \<open>Proxy\<close> itself when \<open>hs\<close>
  is the list the conversion gave.
\<close>

definition same_map :: "(string \<times> string list) list \<Rightarrow> (string \<times> string list) list \<Rightarrow> bool" where
  "same_map hs hs' = (distinct (map fst hs) \<and> distinct (map fst hs') \<and> set hs = set hs')"

definition revisit ::
  "(string \<times> string list) list \<Rightarrow> go_error + http_Request \<Rightarrow> go_error + http_Request" where
  "revisit hs conv = (case conv of Inl err \<Rightarrow> Inl err | Inr r \<Rightarrow> Inr (r\<lparr>Header := hs\<rparr>))"

definition Proxy_visiting ::
  "externals \<Rightarrow> FiberLambdaALB \<Rightarrow> (string \<times> string list) list \<Rightarrow> ALBTargetGroupRequest
     \<Rightarrow> Request list
     \<Rightarrow> (ALBTargetGroupResponse \<times> go_error option) \<times> Request list \<times> effect list" where
  "Proxy_visiting x f hs req pool =
     proxyInternal x f (revisit hs (ProxyEventToHTTPRequest f req)) pool"

text \<open>
  A handler that reads the request per header name sees, of a request, its method,
  request URI, host, content length and body, and for each header name the values stored
  under it, in their order (\<open>PeekAll\<close>); it does not see how the entries of different
  names are interleaved. \<open>reads_per_name h\<close> says that the response \<open>h\<close> leaves
  depends on nothing else of the request.
\<close>

definition same_per_name :: "Request \<Rightarrow> Request \<Rightarrow> bool" where
  "same_per_name q q' =
     (req_method q = req_method q' \<and> req_requestURI q = req_requestURI q'
      \<and> req_host q = req_host q' \<and> req_contentLength q = req_contentLength q'
      \<and> req_body q = req_body q' \<and> (\<forall>key. PeekAll key q = PeekAll key q'))"

definition reads_per_name :: "(RequestCtx \<Rightarrow> RequestCtx) \<Rightarrow> bool" where
  "reads_per_name h =
     (\<forall>fctx fctx'. same_per_name (ctx_Request fctx) (ctx_Request fctx')
        \<and> ctx_remoteAddr fctx = ctx_remoteAddr fctx'
        \<and> ctx_Response fctx = ctx_Response fctx'
        \<longrightarrow> ctx_Response (h fctx) = ctx_Response (h fctx'))"

subsection \<open>What the spec says of the calls taken as parameters\<close>

text \<open>
  Modelled from the spec: \<open>GetProxyResponse\<close> of the core response writer, which is
  not in the source. The spec: the adapter writes the engine response's ``header set,
  status code, and body'' into the response-capture object and ``then extracts a
  structured Outbound Event from that object''. \<open>captures_status\<close> says that a writer
  with a status written yields an event with that status, \<open>captures_body\<close> that the
  event's body is the body written.
\<close>

definition captures_status :: "externals \<Rightarrow> bool" where
  "captures_status x =
     (\<forall>w s. w_status w = Some s \<longrightarrow>
        (\<exists>resp. GetProxyResponse x w = Inr resp \<and> StatusCode resp = s))"

definition captures_body :: "externals \<Rightarrow> bool" where
  "captures_body x = (\<forall>w resp. GetProxyResponse x w = Inr resp \<longrightarrow> Body resp = w_body w)"

subsection \<open>Sample parameters\<close>

text \<open>
  Stand-ins for the parameters, to run the adapter on concrete inputs: a handler that
  echoes the request body with status 200, a resolver that knows one address, a
  \<open>GetProxyResponse\<close> that fails while no status is written, and a conversion that
  rejects an event without a method and a context that is done. The others vary these:
  a request whose address does not resolve, a request whose body cannot be read, an
  event without a method, a \<open>GetProxyResponse\<close> that always fails, a cancelled
  context, and adapters whose conversion gives the two failing requests.
\<close>

definition sample_Handler :: "RequestCtx \<Rightarrow> RequestCtx" where
  "sample_Handler fctx =
     fctx\<lparr>ctx_Response :=
       \<lparr>statusCode = 200, resp_header = [], resp_body = req_body (ctx_Request fctx)\<rparr>\<rparr>"

definition sample_ResolveTCPAddr :: "string \<Rightarrow> go_error + TCPAddr" where
  "sample_ResolveTCPAddr address =
     (if address = ''10.0.0.1:80'' then Inr (TCPAddr ''10.0.0.1'' 80)
      else Inl (GoError ''missing port in address''))"

definition sample_GetProxyResponse :: "ProxyResponseWriterALB \<Rightarrow> go_error + ALBTargetGroupResponse" where
  "sample_GetProxyResponse w =
     (case w_status w of
        None \<Rightarrow> Inl (GoError ''Status code not set on response'')
      | Some s \<Rightarrow>
          Inr \<lparr>StatusCode = s, StatusDescription = [], Headers = w_headers w,
               MultiValueHeaders = [], Body = w_body w, IsBase64Encoded = False\<rparr>)"

definition sample_EventToRequest :: "ALBTargetGroupRequest \<Rightarrow> go_error + http_Request" where
  "sample_EventToRequest ev =
     (if ev_HTTPMethod ev = [] then Inl (GoError ''no method in event'')
      else Inr \<lparr>Method = ev_HTTPMethod ev, RequestURI = ev_Path ev, Host = ''example.org'',
                Header = ev_MultiValueHeaders ev, Body_reader = Inr (ev_Body ev),
                RemoteAddr = ''10.0.0.1:80''\<rparr>)"

definition sample_EventToRequestWithContext ::
  "Context \<Rightarrow> ALBTargetGroupRequest \<Rightarrow> go_error + http_Request" where
  "sample_EventToRequestWithContext ctx ev =
     (case ctx_Err ctx of Some err \<Rightarrow> Inl err | None \<Rightarrow> sample_EventToRequest ev)"

definition sample_externals :: externals where
  "sample_externals =
     \<lparr>GetProxyResponse = sample_GetProxyResponse, ResolveTCPAddr = sample_ResolveTCPAddr\<rparr>"

definition sample_adapter :: FiberLambdaALB where
  "sample_adapter =
     \<lparr>ProxyEventToHTTPRequest = sample_EventToRequest,
      EventToRequestWithContext = sample_EventToRequestWithContext,
      app_Handler = sample_Handler\<rparr>"

definition sample_request :: http_Request where
  "sample_request =
     \<lparr>Method = ''POST'', RequestURI = ''/echo?x=1'', Host = ''example.org'',
      Header = [(''Host'', [''a.example'', ''b.example'']), (''X-Trace'', [''1'', ''2''])],
      Body_reader = Inr ''hello'', RemoteAddr = ''10.0.0.1:80''\<rparr>"

definition sample_event :: ALBTargetGroupRequest where
  "sample_event =
     \<lparr>ev_HTTPMethod = ''POST'', ev_Path = ''/echo'', ev_QueryStringParameters = [],
      ev_Headers = [], ev_MultiValueHeaders = [(''X-Trace'', [''1'', ''2''])],
      ev_Body = ''hello'', ev_IsBase64Encoded = False\<rparr>"

definition unresolved_request :: http_Request where
  "unresolved_request = sample_request\<lparr>RemoteAddr := ''nowhere''\<rparr>"

definition unread_request :: http_Request where
  "unread_request = sample_request\<lparr>Body_reader := Inl (GoError ''unexpected EOF'')\<rparr>"

definition bad_event :: ALBTargetGroupRequest where
  "bad_event = sample_event\<lparr>ev_HTTPMethod := []\<rparr>"

definition failing_externals :: externals where
  "failing_externals =
     sample_externals\<lparr>GetProxyResponse := (\<lambda>w. Inl (GoError ''invalid response''))\<rparr>"

definition done_Context :: Context where
  "done_Context = \<lparr>ctx_Err = Some (GoError ''context canceled'')\<rparr>"

definition unresolved_adapter :: FiberLambdaALB where
  "unresolved_adapter =
     sample_adapter\<lparr>ProxyEventToHTTPRequest := (\<lambda>ev. Inr unresolved_request)\<rparr>"

definition unread_adapter :: FiberLambdaALB where
  "unread_adapter =
     sample_adapter\<lparr>ProxyEventToHTTPRequest := (\<lambda>ev. Inr unread_request)\<rparr>"

text \<open>
  Further stand-ins: a handler that is a function of its request context and answers
  with the header values of the request in the order they are stored, an event with two
  header names, and an adapter whose conversion with context builds the request from
  the event without asking the context whether it is done.
\<close>

definition order_Handler :: "RequestCtx \<Rightarrow> RequestCtx" where
  "order_Handler fctx =
     fctx\<lparr>ctx_Response :=
       \<lparr>statusCode = 200, resp_header = [],
        resp_body = concat (map snd (req_header (ctx_Request fctx)))\<rparr>\<rparr>"

definition order_adapter :: FiberLambdaALB where
  "order_adapter = sample_adapter\<lparr>app_Handler := order_Handler\<rparr>"

definition two_name_event :: ALBTargetGroupRequest where
  "two_name_event =
     sample_event\<lparr>ev_MultiValueHeaders := [(''X-A'', [''1'']), (''X-B'', [''2''])]\<rparr>"


section \<open>Properties\<close>

subsection \<open>The header loop\<close>

lemma range_val_frame:
  "req_method (range_val key val req) = req_method req"
  "req_requestURI (range_val key val req) = req_requestURI req"
  "req_host (range_val key val req) = req_host req"
  "req_contentLength (range_val key val req) = req_contentLength req"
  "req_body (range_val key val req) = req_body req"
  by (induction val arbitrary: req) (simp_all add: Header_Set_def Header_Add_def)

lemma range_Header_frame:
  "req_method (range_Header hs req) = req_method req"
  "req_requestURI (range_Header hs req) = req_requestURI req"
  "req_host (range_Header hs req) = req_host req"
  "req_contentLength (range_Header hs req) = req_contentLength req"
  "req_body (range_Header hs req) = req_body req"
  by (induction hs arbitrary: req) (auto simp: range_val_frame)

lemma PeekAll_Header_Set_other:
  "k \<noteq> key \<Longrightarrow> PeekAll k (Header_Set key v req) = PeekAll k req"
proof -
  assume "k \<noteq> key"
  then have "(\<lambda>kv::string \<times> string. fst kv \<noteq> key \<and> fst kv = k) = (\<lambda>kv. fst kv = k)"
    by auto
  then show ?thesis using \<open>k \<noteq> key\<close> by (simp add: PeekAll_def Header_Set_def)
qed

lemma PeekAll_Header_Set_same:
  "PeekAll key (Header_Set key v req) = [v]"
  by (simp add: PeekAll_def Header_Set_def)

lemma PeekAll_Header_Add:
  "PeekAll k (Header_Add key v req) = PeekAll k req @ (if k = key then [v] else [])"
  by (simp add: PeekAll_def Header_Add_def)

lemma PeekAll_range_val_other:
  "k \<noteq> key \<Longrightarrow> PeekAll k (range_val key val req) = PeekAll k req"
  by (induction val arbitrary: req) (simp_all add: PeekAll_Header_Set_other PeekAll_Header_Add)

lemma PeekAll_range_val_set:
  "key = HeaderHost \<or> key = HeaderContentType \<or> key = HeaderUserAgent
     \<or> key = HeaderContentLength \<or> key = HeaderConnection \<Longrightarrow>
   PeekAll key (range_val key val req) = (if val = [] then PeekAll key req else [last val])"
  by (induction val arbitrary: req) (simp_all add: PeekAll_Header_Set_same)

lemma PeekAll_range_val_add:
  "\<not> (key = HeaderHost \<or> key = HeaderContentType \<or> key = HeaderUserAgent
     \<or> key = HeaderContentLength \<or> key = HeaderConnection) \<Longrightarrow>
   PeekAll key (range_val key val req) = PeekAll key req @ val"
  by (induction val arbitrary: req) (simp_all add: PeekAll_Header_Add)

lemma PeekAll_range_Header_absent:
  "k \<notin> fst ` set hs \<Longrightarrow> PeekAll k (range_Header hs req) = PeekAll k req"
  by (induction hs arbitrary: req) (auto simp: PeekAll_range_val_other)

lemma PeekAll_range_Header:
  "distinct (map fst hs) \<Longrightarrow> (key, val) \<in> set hs \<Longrightarrow>
   PeekAll key (range_Header hs req) = PeekAll key (range_val key val req)"
proof (induction hs arbitrary: req)
  case Nil
  then show ?case by simp
next
  case (Cons h hs)
  obtain k v where h: "h = (k, v)" by (cases h)
  show ?case
  proof (cases "k = key")
    case True
    with Cons.prems h have "v = val" and "key \<notin> fst ` set hs"
      by (auto simp: rev_image_eqI)
    then show ?thesis using h True by (simp add: PeekAll_range_Header_absent)
  next
    case False
    then have ne: "key \<noteq> k" by blast
    from False Cons.prems h have in_hs: "(key, val) \<in> set hs" and "distinct (map fst hs)" by auto
    then have "PeekAll key (range_Header hs (range_val k v req))
        = PeekAll key (range_val key val (range_val k v req))"
      using Cons.IH by blast
    also have "\<dots> = PeekAll key (range_val key val req)"
    proof (cases "key = HeaderHost \<or> key = HeaderContentType \<or> key = HeaderUserAgent
     \<or> key = HeaderContentLength \<or> key = HeaderConnection")
      case True
      then show ?thesis
        by (simp add: PeekAll_range_val_set PeekAll_range_val_other [OF ne])
    next
      case no: False
      then show ?thesis
        by (simp add: PeekAll_range_val_add PeekAll_range_val_other [OF ne])
    qed
    finally show ?thesis using h by simp
  qed
qed

lemma AcquireRequest_reset:
  "pool_reset pool \<Longrightarrow> fst (AcquireRequest pool) = Request_zero"
  by (cases pool) (simp_all add: AcquireRequest_def pool_reset_def)

lemma adaptor_body_handler:
  assumes "Body_reader r = Inr b" and "ResolveTCPAddr x (RemoteAddr r) = Inr remoteAddr"
  shows "snd (snd (adaptor_body x f w r req)) =
    [HandlerCall (Init (range_Header (Header r)
       (SetHost (Host r) (SetRequestURI (RequestURI r) (SetMethod (Method r)
          (BodyWriter_Write b (SetContentLength (int (length b)) req)))))) remoteAddr)]"
  using assms by (simp add: adaptor_body_def Let_def)

lemma adaptor_effects:
  "snd (snd (adaptor x f w r pool)) =
     Acquire # snd (snd (adaptor_body x f w r (fst (AcquireRequest pool)))) @ [Release]"
  by (simp add: adaptor_def split: prod.splits)


text \<open>
  C2. The headers of the generic request in the engine request. Take a request with one
  entry per header name (a Go map) and one of its entries. After the loop, whatever
  request it started on, a name of the fixed set (\<open>Host\<close>, \<open>Content-Type\<close>,
  \<open>User-Agent\<close>, \<open>Content-Length\<close>, \<open>Connection\<close>, compared as written) has
  only the last of its supplied values, however many there were and whatever the request
  held for it before, and every other name has all of its values, in the order
  supplied, after what the request held for it. In \<open>adaptor\<close> the loop starts on a
  request without header entries when the pool holds reset requests; so when the body
  reads and the remote address resolves, the handler is called once, on a request that
  has exactly the last value for a name of the fixed set and exactly the supplied
  values, in order, for any other name.
\<close>

theorem adaptor_header_copy:
  assumes "distinct (map fst (Header r))" and "(key, val) \<in> set (Header r)"
  shows "PeekAll key (range_Header (Header r) req) =
       (if key = HeaderHost \<or> key = HeaderContentType \<or> key = HeaderUserAgent
           \<or> key = HeaderContentLength \<or> key = HeaderConnection
        then (if val = [] then PeekAll key req else [last val])
        else PeekAll key req @ val)
   \<and> (pool_reset pool \<and> Body_reader r = Inr b
        \<and> ResolveTCPAddr x (RemoteAddr r) = Inr remoteAddr \<longrightarrow>
      (\<exists>fctx. snd (snd (adaptor x f w r pool)) = [Acquire, HandlerCall fctx, Release] \<and>
         PeekAll key (ctx_Request fctx) =
           (if key = HeaderHost \<or> key = HeaderContentType \<or> key = HeaderUserAgent
               \<or> key = HeaderContentLength \<or> key = HeaderConnection
            then (if val = [] then [] else [last val])
            else val)))"
proof -
  have loop: "PeekAll key (range_Header (Header r) q) =
       (if key = HeaderHost \<or> key = HeaderContentType \<or> key = HeaderUserAgent
           \<or> key = HeaderContentLength \<or> key = HeaderConnection
        then (if val = [] then PeekAll key q else [last val])
        else PeekAll key q @ val)" for q
    using PeekAll_range_Header [OF assms, of q]
    by (simp add: PeekAll_range_val_set PeekAll_range_val_add)
  let ?req5 = "SetHost (Host r) (SetRequestURI (RequestURI r) (SetMethod (Method r)
          (BodyWriter_Write b (SetContentLength (int (length b)) Request_zero))))"
  let ?fctx = "Init (range_Header (Header r) ?req5) remoteAddr"
  have empty: "PeekAll k ?req5 = []" for k
    by (simp add: PeekAll_def SetHost_def SetRequestURI_def SetMethod_def
        BodyWriter_Write_def SetContentLength_def Request_zero_def)
  have at_handler: "PeekAll key (ctx_Request ?fctx) =
       (if key = HeaderHost \<or> key = HeaderContentType \<or> key = HeaderUserAgent
           \<or> key = HeaderContentLength \<or> key = HeaderConnection
        then (if val = [] then [] else [last val])
        else val)"
    using loop [of ?req5] empty by (simp add: Init_def)
  have "snd (snd (adaptor x f w r pool)) = [Acquire, HandlerCall ?fctx, Release]"
    if "pool_reset pool" and "Body_reader r = Inr b"
      and "ResolveTCPAddr x (RemoteAddr r) = Inr remoteAddr"
    using that by (simp add: adaptor_effects adaptor_body_handler AcquireRequest_reset)
  with at_handler loop [of req] show ?thesis by blast
qed

theorem adaptor_header_copy_witness:
  "distinct (map fst (Header sample_request))
   \<and> (''Host'', [''a.example'', ''b.example'']) \<in> set (Header sample_request)
   \<and> (''X-Trace'', [''1'', ''2'']) \<in> set (Header sample_request)
   \<and> PeekAll ''Host'' (range_Header (Header sample_request) Request_zero) = [''b.example'']
   \<and> PeekAll ''X-Trace'' (range_Header (Header sample_request) Request_zero) = [''1'', ''2'']
   \<and> pool_reset [] \<and> Body_reader sample_request = Inr ''hello''
   \<and> ResolveTCPAddr sample_externals (RemoteAddr sample_request) = Inr (TCPAddr ''10.0.0.1'' 80)
   \<and> (\<exists>fctx. snd (snd (adaptor sample_externals sample_adapter NewProxyResponseWriterALB
            sample_request [])) = [Acquire, HandlerCall fctx, Release]
        \<and> PeekAll ''Host'' (ctx_Request fctx) = [''b.example''])
   \<and> (\<exists>fctx. snd (snd (adaptor sample_externals sample_adapter NewProxyResponseWriterALB
            sample_request [])) = [Acquire, HandlerCall fctx, Release]
        \<and> PeekAll ''X-Trace'' (ctx_Request fctx) = [''1'', ''2''])"
proof -
  have h1: "pool_reset []" by (simp add: pool_reset_def)
  have h2: "Body_reader sample_request = Inr ''hello''" by (simp add: sample_request_def)
  have h3: "ResolveTCPAddr sample_externals (RemoteAddr sample_request) = Inr (TCPAddr ''10.0.0.1'' 80)"
    by (simp add: sample_externals_def sample_request_def sample_ResolveTCPAddr_def)
  have h4: "distinct (map fst (Header sample_request))" by (simp add: sample_request_def)
  have h5: "(''Host'', [''a.example'', ''b.example'']) \<in> set (Header sample_request)"
    by (simp add: sample_request_def)
  have h6: "(''X-Trace'', [''1'', ''2'']) \<in> set (Header sample_request)"
    by (simp add: sample_request_def)
  have z: "PeekAll k Request_zero = []" for k
    by (simp add: PeekAll_def Request_zero_def)
  show ?thesis
    using h1 h2 h3 h4 h5 h6 z
      adaptor_header_copy [OF h4 h5, of Request_zero "[]" "''hello''" sample_externals
        "TCPAddr ''10.0.0.1'' 80" sample_adapter NewProxyResponseWriterALB]
      adaptor_header_copy [OF h4 h6, of Request_zero "[]" "''hello''" sample_externals
        "TCPAddr ''10.0.0.1'' 80" sample_adapter NewProxyResponseWriterALB]
    by (simp add: HeaderHost_def HeaderContentType_def HeaderUserAgent_def
        HeaderContentLength_def HeaderConnection_def)
qed

subsection \<open>The exit paths of adaptor\<close>

lemma adaptor_unfold:
  "adaptor x f w r pool =
     (fst (adaptor_body x f w r (fst (AcquireRequest pool))),
      ReleaseRequest (fst (snd (adaptor_body x f w r (fst (AcquireRequest pool)))))
        (snd (AcquireRequest pool)),
      Acquire # snd (snd (adaptor_body x f w r (fst (AcquireRequest pool)))) @ [Release])"
  by (simp add: adaptor_def split: prod.splits)

lemma adaptor_body_read_error:
  "Body_reader r = Inl err \<Longrightarrow>
   adaptor_body x f w r req =
     (http_Error w (StatusMessage StatusInternalServerError) StatusInternalServerError, req, [])"
  by (simp add: adaptor_body_def)

lemma adaptor_body_resolve_error:
  "Body_reader r = Inr b \<Longrightarrow> ResolveTCPAddr x (RemoteAddr r) = Inl err \<Longrightarrow>
   fst (adaptor_body x f w r req) =
     http_Error w (StatusMessage StatusInternalServerError) StatusInternalServerError
   \<and> snd (snd (adaptor_body x f w r req)) = []"
  by (simp add: adaptor_body_def Let_def)

lemma http_Error_status: "w_status (http_Error w msg code) = Some code"
  by (simp add: http_Error_def Write_def WriteHeader_def)

lemma http_Error_body: "w_body (http_Error w msg code) = w_body w @ msg @ [CHR 0x0A]"
  by (simp add: http_Error_def Write_def WriteHeader_def w_Header_Set_def w_Header_Add_def
      w_Header_Del_def)

lemma adaptor_body_effects_cases:
  "snd (snd (adaptor_body x f w r req)) = [] \<or>
   (\<exists>fctx. snd (snd (adaptor_body x f w r req)) = [HandlerCall fctx])"
  by (simp add: adaptor_body_def Let_def split: sum.splits)

text \<open>
  C3. A remote address that does not resolve. When the body reads and
  \<open>net.ResolveTCPAddr\<close> returns an error, \<open>adaptor\<close> builds no event: it writes the
  internal-server-error response through \<open>http.Error\<close> on the response writer it was
  given (status 500, not the 504 of the gateway-timeout event, body
  \<open>Internal Server Error\<close> and a newline), and the handler is not called: the only
  effects are taking the request from the pool and giving it back. Which strings
  \<open>net.ResolveTCPAddr\<close> rejects is the library's matter and a parameter here.
\<close>

theorem adaptor_resolve_failure:
  assumes "Body_reader r = Inr b" and "ResolveTCPAddr x (RemoteAddr r) = Inl err"
  shows "fst (adaptor x f w r pool) =
           http_Error w (StatusMessage StatusInternalServerError) StatusInternalServerError
       \<and> w_status (fst (adaptor x f w r pool)) = Some 500
       \<and> w_body (fst (adaptor x f w r pool)) = w_body w @ ''Internal Server Error'' @ [CHR 0x0A]
       \<and> w_status (fst (adaptor x f w r pool)) \<noteq> Some (StatusCode GatewayTimeoutALB)
       \<and> snd (snd (adaptor x f w r pool)) = [Acquire, Release]
       \<and> filter is_HandlerCall (snd (snd (adaptor x f w r pool))) = []"
  using adaptor_body_resolve_error [OF assms]
  by (simp add: adaptor_unfold http_Error_status http_Error_body StatusInternalServerError_def
      StatusMessage_def GatewayTimeoutALB_def)

theorem adaptor_resolve_failure_witness:
  "Body_reader unresolved_request = Inr ''hello''
   \<and> ResolveTCPAddr sample_externals (RemoteAddr unresolved_request)
       = Inl (GoError ''missing port in address'')
   \<and> w_status (fst (adaptor sample_externals sample_adapter NewProxyResponseWriterALB
         unresolved_request [])) = Some 500
   \<and> w_body (fst (adaptor sample_externals sample_adapter NewProxyResponseWriterALB
         unresolved_request [])) = ''Internal Server Error'' @ [CHR 0x0A]
   \<and> snd (snd (adaptor sample_externals sample_adapter NewProxyResponseWriterALB
         unresolved_request [])) = [Acquire, Release]"
proof -
  have h1: "Body_reader unresolved_request = Inr ''hello''"
    by (simp add: unresolved_request_def sample_request_def)
  have h2: "ResolveTCPAddr sample_externals (RemoteAddr unresolved_request)
       = Inl (GoError ''missing port in address'')"
    by (simp add: unresolved_request_def sample_externals_def sample_ResolveTCPAddr_def)
  show ?thesis
    using h1 h2
      adaptor_resolve_failure [OF h1 h2, of sample_adapter NewProxyResponseWriterALB "[]"]
    by (simp add: NewProxyResponseWriterALB_def http_Error_status http_Error_body
        StatusMessage_def StatusInternalServerError_def)
qed

text \<open>
  C10. A body that cannot be read. When \<open>ioutil.ReadAll\<close> returns an error,
  \<open>adaptor\<close> writes the same internal-server-error response through \<open>http.Error\<close>
  (status 500, not the gateway-timeout 504) and returns without calling the handler,
  whatever the remote address is.
\<close>

theorem adaptor_read_failure:
  assumes "Body_reader r = Inl err"
  shows "fst (adaptor x f w r pool) =
           http_Error w (StatusMessage StatusInternalServerError) StatusInternalServerError
       \<and> w_status (fst (adaptor x f w r pool)) = Some 500
       \<and> w_body (fst (adaptor x f w r pool)) = w_body w @ ''Internal Server Error'' @ [CHR 0x0A]
       \<and> w_status (fst (adaptor x f w r pool)) \<noteq> Some (StatusCode GatewayTimeoutALB)
       \<and> snd (snd (adaptor x f w r pool)) = [Acquire, Release]
       \<and> filter is_HandlerCall (snd (snd (adaptor x f w r pool))) = []"
  using adaptor_body_read_error [OF assms]
  by (simp add: adaptor_unfold http_Error_status http_Error_body StatusInternalServerError_def
      StatusMessage_def GatewayTimeoutALB_def)

theorem adaptor_read_failure_witness:
  "Body_reader unread_request = Inl (GoError ''unexpected EOF'')
   \<and> w_status (fst (adaptor sample_externals sample_adapter NewProxyResponseWriterALB
         unread_request [])) = Some 500
   \<and> w_body (fst (adaptor sample_externals sample_adapter NewProxyResponseWriterALB
         unread_request [])) = ''Internal Server Error'' @ [CHR 0x0A]
   \<and> snd (snd (adaptor sample_externals sample_adapter NewProxyResponseWriterALB
         unread_request [])) = [Acquire, Release]"
proof -
  have h1: "Body_reader unread_request = Inl (GoError ''unexpected EOF'')"
    by (simp add: unread_request_def)
  show ?thesis
    using h1
      adaptor_read_failure [OF h1, of sample_externals sample_adapter
        NewProxyResponseWriterALB "[]"]
    by (simp add: NewProxyResponseWriterALB_def http_Error_status http_Error_body
        StatusMessage_def StatusInternalServerError_def)
qed

text \<open>
  C7. The pooled request. On every run of \<open>adaptor\<close>, whatever the request, the writer,
  the handler and the pool are, the effects start with the one \<open>AcquireRequest\<close> and
  end with the one \<open>ReleaseRequest\<close>, and the pool afterwards holds the request again,
  reset, on top of what \<open>AcquireRequest\<close> left. The instance after it runs the three
  exit paths: the body that cannot be read, the address that does not resolve, and the
  handler call.
\<close>

theorem adaptor_releases_once:
  "hd (snd (snd (adaptor x f w r pool))) = Acquire
   \<and> last (snd (snd (adaptor x f w r pool))) = Release
   \<and> count_list (snd (snd (adaptor x f w r pool))) Acquire = 1
   \<and> count_list (snd (snd (adaptor x f w r pool))) Release = 1
   \<and> fst (snd (adaptor x f w r pool)) = Request_zero # snd (AcquireRequest pool)"
  using adaptor_body_effects_cases [of x f w r "fst (AcquireRequest pool)"]
  by (auto simp: adaptor_unfold ReleaseRequest_def Reset_def)

theorem adaptor_releases_once_witness:
  "count_list (snd (snd (adaptor sample_externals sample_adapter NewProxyResponseWriterALB
       unread_request []))) Release = 1
   \<and> count_list (snd (snd (adaptor sample_externals sample_adapter NewProxyResponseWriterALB
       unresolved_request []))) Release = 1
   \<and> count_list (snd (snd (adaptor sample_externals sample_adapter NewProxyResponseWriterALB
       sample_request []))) Release = 1
   \<and> last (snd (snd (adaptor sample_externals sample_adapter NewProxyResponseWriterALB
       sample_request []))) = Release
   \<and> fst (snd (adaptor sample_externals sample_adapter NewProxyResponseWriterALB
       sample_request [])) = [Request_zero]"
  using adaptor_releases_once [of sample_externals sample_adapter NewProxyResponseWriterALB
      unread_request "[]"]
    adaptor_releases_once [of sample_externals sample_adapter NewProxyResponseWriterALB
      unresolved_request "[]"]
    adaptor_releases_once [of sample_externals sample_adapter NewProxyResponseWriterALB
      sample_request "[]"]
  by (simp add: AcquireRequest_def)



subsection \<open>proxyInternal\<close>

lemma proxyInternal_conversion_error:
  "proxyInternal x f (Inl err) pool =
     ((GatewayTimeoutALB,
       Some (GoError (''Could not convert proxy event to request: '' @ Error_msg err))),
      pool,
      [Println (''Could not convert proxy event to request: '' @ Error_msg err)])"
  by (simp add: proxyInternal_def NewLoggedError_def Let_def)

lemma proxyInternal_capture_error:
  assumes "GetProxyResponse x (fst (adaptor x f NewProxyResponseWriterALB r pool)) = Inl err"
  shows "fst (proxyInternal x f (Inr r) pool) =
     (GatewayTimeoutALB,
      Some (GoError (''Error while generating proxy response: '' @ Error_msg err)))
   \<and> last (snd (snd (proxyInternal x f (Inr r) pool))) =
       Println (''Error while generating proxy response: '' @ Error_msg err)"
proof (cases "adaptor x f NewProxyResponseWriterALB r pool")
  case (fields w' pool' effs)
  with assms show ?thesis
    by (simp add: proxyInternal_def NewLoggedError_def Let_def)
qed

lemma proxyInternal_success:
  assumes "GetProxyResponse x (fst (adaptor x f NewProxyResponseWriterALB r pool)) = Inr resp"
  shows "proxyInternal x f (Inr r) pool =
     ((resp, None), fst (snd (adaptor x f NewProxyResponseWriterALB r pool)),
      snd (snd (adaptor x f NewProxyResponseWriterALB r pool)))"
proof (cases "adaptor x f NewProxyResponseWriterALB r pool")
  case (fields w' pool' effs)
  with assms show ?thesis
    by (simp add: proxyInternal_def)
qed

lemma sample_conversion:
  "ProxyEventToHTTPRequest sample_adapter bad_event = Inl (GoError ''no method in event'')"
  "EventToRequestWithContext sample_adapter done_Context sample_event
     = Inl (GoError ''context canceled'')"
  "ProxyEventToHTTPRequest sample_adapter sample_event =
     Inr \<lparr>Method = ''POST'', RequestURI = ''/echo'', Host = ''example.org'',
          Header = [(''X-Trace'', [''1'', ''2''])], Body_reader = Inr ''hello'',
          RemoteAddr = ''10.0.0.1:80''\<rparr>"
  "EventToRequestWithContext sample_adapter \<lparr>ctx_Err = None\<rparr> sample_event =
     Inr \<lparr>Method = ''POST'', RequestURI = ''/echo'', Host = ''example.org'',
          Header = [(''X-Trace'', [''1'', ''2''])], Body_reader = Inr ''hello'',
          RemoteAddr = ''10.0.0.1:80''\<rparr>"
  by (simp_all add: sample_adapter_def sample_EventToRequest_def
      sample_EventToRequestWithContext_def bad_event_def sample_event_def done_Context_def)

lemma sample_captures: "captures_status sample_externals" "captures_body sample_externals"
  by (auto simp: captures_status_def captures_body_def sample_externals_def
      sample_GetProxyResponse_def split: option.splits)

lemma adaptor_writer:
  "fst (adaptor x f w r pool) = fst (adaptor_body x f w r (fst (AcquireRequest pool)))"
  by (simp add: adaptor_def split: prod.splits)

lemma adaptor_pool:
  "fst (snd (adaptor x f w r pool)) = Request_zero # snd (AcquireRequest pool)"
  by (simp add: adaptor_def ReleaseRequest_def Reset_def split: prod.splits)

lemma pool_reset_AcquireRequest:
  "pool_reset pool \<Longrightarrow> pool_reset (Request_zero # snd (AcquireRequest pool))"
  by (cases pool) (simp_all add: pool_reset_def AcquireRequest_def)

lemma adaptor_failure_status:
  assumes "(\<exists>e. Body_reader r = Inl e) \<or> (\<exists>e. ResolveTCPAddr x (RemoteAddr r) = Inl e)"
  shows "w_status (fst (adaptor_body x f w r req)) = Some 500
       \<and> snd (snd (adaptor_body x f w r req)) = []"
proof (cases "Body_reader r")
  case (Inl e)
  then show ?thesis
    by (simp add: adaptor_body_read_error http_Error_status StatusInternalServerError_def)
next
  case (Inr b)
  with assms obtain e where "ResolveTCPAddr x (RemoteAddr r) = Inl e" by auto
  with Inr show ?thesis
    using adaptor_body_resolve_error [of r b x e f w req]
    by (simp add: http_Error_status StatusInternalServerError_def)
qed

lemma foldl_Header_Add_frame:
  "w_status (foldl (\<lambda>w' kv. w_Header_Add (fst kv) (snd kv) w') w hs) = w_status w
   \<and> w_body (foldl (\<lambda>w' kv. w_Header_Add (fst kv) (snd kv) w') w hs) = w_body w"
  by (induction hs arbitrary: w) (simp_all add: w_Header_Add_def)

lemma adaptor_body_handler_writer:
  assumes "Body_reader r = Inr b" and "ResolveTCPAddr x (RemoteAddr r) = Inr remoteAddr"
  shows "\<exists>fctx. snd (snd (adaptor_body x f w r req)) = [HandlerCall fctx]
     \<and> req_body (ctx_Request fctx) = req_body req @ b
     \<and> w_status (fst (adaptor_body x f w r req))
         = Some (statusCode (ctx_Response (app_Handler f fctx)))
     \<and> w_body (fst (adaptor_body x f w r req))
         = w_body w @ resp_body (ctx_Response (app_Handler f fctx))"
  using assms
  by (simp add: adaptor_body_def Let_def foldl_Header_Add_frame Write_def WriteHeader_def
      Init_def range_Header_frame SetHost_def SetRequestURI_def SetMethod_def
      BodyWriter_Write_def SetContentLength_def)

text \<open>
  C1. The gateway-timeout fallback. When the conversion of the event fails, \<open>Proxy\<close>
  and \<open>ProxyWithContext\<close> return the fixed gateway-timeout event with a logged error
  that names the cause, leave the pool as it was, and do nothing else but print the log
  line: no request is taken from the pool and the handler is not called. When the
  conversion succeeds and \<open>GetProxyResponse\<close> fails on the writer \<open>adaptor\<close> filled,
  they return the same fixed event with a logged error, and the log line is the last
  effect.
\<close>

theorem Proxy_gateway_timeout:
  "(ProxyEventToHTTPRequest f req = Inl err \<longrightarrow>
      Proxy x f req pool =
        ((GatewayTimeoutALB,
          Some (GoError (''Could not convert proxy event to request: '' @ Error_msg err))),
         pool,
         [Println (''Could not convert proxy event to request: '' @ Error_msg err)]))
   \<and> (EventToRequestWithContext f ctx req = Inl err \<longrightarrow>
      ProxyWithContext x f ctx req pool =
        ((GatewayTimeoutALB,
          Some (GoError (''Could not convert proxy event to request: '' @ Error_msg err))),
         pool,
         [Println (''Could not convert proxy event to request: '' @ Error_msg err)]))
   \<and> (ProxyEventToHTTPRequest f req = Inr r
        \<and> GetProxyResponse x (fst (adaptor x f NewProxyResponseWriterALB r pool)) = Inl err \<longrightarrow>
      fst (Proxy x f req pool) =
        (GatewayTimeoutALB,
         Some (GoError (''Error while generating proxy response: '' @ Error_msg err)))
      \<and> last (snd (snd (Proxy x f req pool))) =
          Println (''Error while generating proxy response: '' @ Error_msg err))
   \<and> (EventToRequestWithContext f ctx req = Inr r
        \<and> GetProxyResponse x (fst (adaptor x f NewProxyResponseWriterALB r pool)) = Inl err \<longrightarrow>
      fst (ProxyWithContext x f ctx req pool) =
        (GatewayTimeoutALB,
         Some (GoError (''Error while generating proxy response: '' @ Error_msg err)))
      \<and> last (snd (snd (ProxyWithContext x f ctx req pool))) =
          Println (''Error while generating proxy response: '' @ Error_msg err))"
  by (simp add: Proxy_def ProxyWithContext_def proxyInternal_conversion_error
      proxyInternal_capture_error)

theorem Proxy_gateway_timeout_witness:
  "ProxyEventToHTTPRequest sample_adapter bad_event = Inl (GoError ''no method in event'')
   \<and> Proxy sample_externals sample_adapter bad_event [] =
        ((GatewayTimeoutALB,
          Some (GoError ''Could not convert proxy event to request: no method in event'')),
         [], [Println ''Could not convert proxy event to request: no method in event''])
   \<and> EventToRequestWithContext sample_adapter done_Context sample_event
        = Inl (GoError ''context canceled'')
   \<and> ProxyWithContext sample_externals sample_adapter done_Context sample_event [] =
        ((GatewayTimeoutALB,
          Some (GoError ''Could not convert proxy event to request: context canceled'')),
         [], [Println ''Could not convert proxy event to request: context canceled''])
   \<and> fst (Proxy failing_externals sample_adapter sample_event []) =
        (GatewayTimeoutALB,
         Some (GoError ''Error while generating proxy response: invalid response''))
   \<and> fst (ProxyWithContext failing_externals sample_adapter \<lparr>ctx_Err = None\<rparr> sample_event []) =
        (GatewayTimeoutALB,
         Some (GoError ''Error while generating proxy response: invalid response''))"
proof -
  let ?r = "\<lparr>Method = ''POST'', RequestURI = ''/echo'', Host = ''example.org'',
          Header = [(''X-Trace'', [''1'', ''2''])], Body_reader = Inr ''hello'',
          RemoteAddr = ''10.0.0.1:80''\<rparr>"
  have g: "GetProxyResponse failing_externals w = Inl (GoError ''invalid response'')" for w
    by (simp add: failing_externals_def)
  show ?thesis
    using sample_conversion g
      Proxy_gateway_timeout [of sample_adapter bad_event "GoError ''no method in event''"
        sample_externals "[]" done_Context ?r]
      Proxy_gateway_timeout [of sample_adapter sample_event "GoError ''context canceled''"
        sample_externals "[]" done_Context ?r]
      Proxy_gateway_timeout [of sample_adapter sample_event "GoError ''invalid response''"
        failing_externals "[]" "\<lparr>ctx_Err = None\<rparr>" ?r]
    by simp
qed

text \<open>
  C5. The echo handler. Take a handler that answers every request with status 200 and
  the request body as response body, an event with body \<open>hello\<close> that converts to a
  request carrying that body, a remote address that resolves, a pool of reset requests,
  and a \<open>GetProxyResponse\<close> that builds the event from the status and body the writer
  captured. Then \<open>Proxy\<close> returns an event with status 200 and body \<open>hello\<close>, and a
  nil error.
\<close>

theorem Proxy_echo:
  assumes "pool_reset pool"
    and "ProxyEventToHTTPRequest f req = Inr r"
    and "ev_Body req = ''hello''"
    and "Body_reader r = Inr (ev_Body req)"
    and "ResolveTCPAddr x (RemoteAddr r) = Inr remoteAddr"
    and "\<And>fctx. statusCode (ctx_Response (app_Handler f fctx)) = 200
           \<and> resp_body (ctx_Response (app_Handler f fctx)) = req_body (ctx_Request fctx)"
    and "captures_status x" and "captures_body x"
  shows "\<exists>resp. fst (Proxy x f req pool) = (resp, None)
     \<and> StatusCode resp = 200 \<and> Body resp = ''hello''"
proof -
  let ?w = "fst (adaptor x f NewProxyResponseWriterALB r pool)"
  obtain fctx where
    b: "req_body (ctx_Request fctx) = req_body (fst (AcquireRequest pool)) @ ev_Body req"
    and s: "w_status ?w = Some (statusCode (ctx_Response (app_Handler f fctx)))"
    and w: "w_body ?w = w_body NewProxyResponseWriterALB
              @ resp_body (ctx_Response (app_Handler f fctx))"
    using adaptor_body_handler_writer [OF assms(4,5), of f NewProxyResponseWriterALB
        "fst (AcquireRequest pool)"]
    by (auto simp: adaptor_writer)
  have status: "w_status ?w = Some 200" using s assms(6) by simp
  have body: "w_body ?w = ''hello''"
    using w b assms(1,3,6)
    by (simp add: AcquireRequest_reset Request_zero_def NewProxyResponseWriterALB_def)
  from status assms(7) obtain resp where
    resp: "GetProxyResponse x ?w = Inr resp" "StatusCode resp = 200"
    unfolding captures_status_def by blast
  from resp(1) assms(8) body have "Body resp = ''hello''"
    unfolding captures_body_def by metis
  with resp show ?thesis
    using proxyInternal_success [OF resp(1)] assms(2) by (simp add: Proxy_def)
qed

theorem Proxy_echo_witness:
  "pool_reset [] \<and> ev_Body sample_event = ''hello''
   \<and> captures_status sample_externals \<and> captures_body sample_externals
   \<and> (\<exists>resp. fst (Proxy sample_externals sample_adapter sample_event []) = (resp, None)
         \<and> StatusCode resp = 200 \<and> Body resp = ''hello'')"
proof -
  let ?r = "\<lparr>Method = ''POST'', RequestURI = ''/echo'', Host = ''example.org'',
          Header = [(''X-Trace'', [''1'', ''2''])], Body_reader = Inr ''hello'',
          RemoteAddr = ''10.0.0.1:80''\<rparr>"
  have h1: "pool_reset []" by (simp add: pool_reset_def)
  have h2: "ProxyEventToHTTPRequest sample_adapter sample_event = Inr ?r"
    by (rule sample_conversion)
  have h3: "ev_Body sample_event = ''hello''" by (simp add: sample_event_def)
  have h4: "Body_reader ?r = Inr (ev_Body sample_event)" by (simp add: sample_event_def)
  have h5: "ResolveTCPAddr sample_externals (RemoteAddr ?r) = Inr (TCPAddr ''10.0.0.1'' 80)"
    by (simp add: sample_externals_def sample_ResolveTCPAddr_def)
  have h6: "statusCode (ctx_Response (app_Handler sample_adapter fctx)) = 200
           \<and> resp_body (ctx_Response (app_Handler sample_adapter fctx))
               = req_body (ctx_Request fctx)" for fctx
    by (simp add: sample_adapter_def sample_Handler_def)
  show ?thesis
    using h1 h3 sample_captures
      Proxy_echo [OF h1 h2 h3 h4 h5 h6 sample_captures]
    by simp
qed

subsection \<open>Proxy and the pool\<close>

lemma adaptor_reset_pool:
  assumes "pool_reset pool"
  shows "fst (adaptor x f w r pool) = fst (adaptor_body x f w r Request_zero)"
    and "snd (snd (adaptor x f w r pool)) =
           Acquire # snd (snd (adaptor_body x f w r Request_zero)) @ [Release]"
    and "pool_reset (fst (snd (adaptor x f w r pool)))"
  using assms
  by (simp_all add: adaptor_writer adaptor_effects adaptor_pool AcquireRequest_reset
      pool_reset_AcquireRequest)

lemma proxyInternal_reset_pool:
  assumes "pool_reset pool"
  shows "pool_reset (fst (snd (proxyInternal x f conv pool)))"
proof (cases conv)
  case (Inl err)
  with assms show ?thesis by (simp add: proxyInternal_conversion_error)
next
  case (Inr r)
  obtain w' pool' effs where a: "adaptor x f NewProxyResponseWriterALB r pool = (w', pool', effs)"
    by (cases "adaptor x f NewProxyResponseWriterALB r pool")
  have "pool_reset pool'"
    using adaptor_reset_pool(3) [OF assms, of x f NewProxyResponseWriterALB r] a by simp
  with Inr a show ?thesis
    by (simp add: proxyInternal_def NewLoggedError_def Let_def split: sum.splits)
qed

lemma proxyInternal_any_reset_pool:
  assumes "pool_reset pool" and "pool_reset pool'"
  shows "fst (proxyInternal x f conv pool') = fst (proxyInternal x f conv pool)
       \<and> snd (snd (proxyInternal x f conv pool')) = snd (snd (proxyInternal x f conv pool))"
proof (cases conv)
  case (Inl err)
  then show ?thesis by (simp add: proxyInternal_conversion_error)
next
  case (Inr r)
  obtain w1 p1 e1 where a1: "adaptor x f NewProxyResponseWriterALB r pool = (w1, p1, e1)"
    by (cases "adaptor x f NewProxyResponseWriterALB r pool")
  obtain w2 p2 e2 where a2: "adaptor x f NewProxyResponseWriterALB r pool' = (w2, p2, e2)"
    by (cases "adaptor x f NewProxyResponseWriterALB r pool'")
  have "w2 = w1" and "e2 = e1"
    using adaptor_reset_pool(1,2) [OF assms(1), of x f NewProxyResponseWriterALB r]
      adaptor_reset_pool(1,2) [OF assms(2), of x f NewProxyResponseWriterALB r] a1 a2
    by simp_all
  with Inr a1 a2 show ?thesis
    by (simp add: proxyInternal_def NewLoggedError_def Let_def split: sum.splits)
qed

lemma proxyInternal_pool:
  "fst (snd (proxyInternal x f (Inr r) pool)) = Request_zero # snd (AcquireRequest pool)"
proof (cases "adaptor x f NewProxyResponseWriterALB r pool")
  case (fields w' pool' effs)
  then have "pool' = Request_zero # snd (AcquireRequest pool)"
    using adaptor_pool [of x f NewProxyResponseWriterALB r pool] by simp
  with fields show ?thesis
    by (simp add: proxyInternal_def NewLoggedError_def Let_def split: sum.splits)
qed

lemma same_map_PeekAll:
  assumes "same_map hs hs'"
  shows "PeekAll key (range_Header hs q) = PeekAll key (range_Header hs' q)"
proof (cases "key \<in> fst ` set hs")
  case True
  then obtain val where v: "(key, val) \<in> set hs" by auto
  with assms have v': "(key, val) \<in> set hs'" by (simp add: same_map_def)
  from assms have d: "distinct (map fst hs)" "distinct (map fst hs')"
    by (simp_all add: same_map_def)
  show ?thesis
    using PeekAll_range_Header [OF d(1) v, of q] PeekAll_range_Header [OF d(2) v', of q]
    by simp
next
  case False
  with assms have "key \<notin> fst ` set hs'" by (simp add: same_map_def)
  with False show ?thesis by (simp add: PeekAll_range_Header_absent)
qed

lemma same_map_same_per_name:
  "same_map hs hs' \<Longrightarrow> same_per_name (range_Header hs q) (range_Header hs' q)"
  by (simp add: same_per_name_def range_Header_frame same_map_PeekAll)

lemma adaptor_body_revisit:
  assumes "same_map hs hs'" and "reads_per_name (app_Handler f)"
  shows "fst (adaptor_body x f w (r\<lparr>Header := hs'\<rparr>) q)
       = fst (adaptor_body x f w (r\<lparr>Header := hs\<rparr>) q)"
proof (cases "Body_reader r")
  case (Inl err)
  then show ?thesis by (simp add: adaptor_body_def)
next
  case (Inr b)
  show ?thesis
  proof (cases "ResolveTCPAddr x (RemoteAddr r)")
    case (Inl err)
    with Inr show ?thesis by (simp add: adaptor_body_def Let_def)
  next
    case remote: (Inr remoteAddr)
    let ?q5 = "SetHost (Host r) (SetRequestURI (RequestURI r) (SetMethod (Method r)
          (BodyWriter_Write b (SetContentLength (int (length b)) q))))"
    have "same_per_name (range_Header hs ?q5) (range_Header hs' ?q5)"
      using assms(1) by (rule same_map_same_per_name)
    then have "ctx_Response (app_Handler f (Init (range_Header hs ?q5) remoteAddr))
        = ctx_Response (app_Handler f (Init (range_Header hs' ?q5) remoteAddr))"
      using assms(2) unfolding reads_per_name_def by (simp add: Init_def)
    with Inr remote show ?thesis by (simp add: adaptor_body_def Let_def)
  qed
qed

lemma proxyInternal_fst:
  "fst (proxyInternal x f (Inr r) pool) =
     (case GetProxyResponse x (fst (adaptor x f NewProxyResponseWriterALB r pool)) of
        Inl err \<Rightarrow>
          (GatewayTimeoutALB,
           Some (GoError (''Error while generating proxy response: '' @ Error_msg err)))
      | Inr resp \<Rightarrow> (resp, None))"
proof (cases "adaptor x f NewProxyResponseWriterALB r pool")
  case (fields w' pool' effs)
  then show ?thesis
    by (simp add: proxyInternal_def NewLoggedError_def Let_def split: sum.splits)
qed

lemma Proxy_visiting_pool_reset:
  "pool_reset pool \<Longrightarrow> pool_reset (fst (snd (Proxy_visiting x f hs req pool)))"
  by (simp add: Proxy_visiting_def proxyInternal_reset_pool)

lemma Proxy_visiting_Header:
  "ProxyEventToHTTPRequest f req = Inr r \<Longrightarrow>
   Proxy_visiting x f (Header r) req pool = Proxy x f req pool"
  by (simp add: Proxy_visiting_def Proxy_def revisit_def)

lemma sample_reads_per_name: "reads_per_name (app_Handler sample_adapter)"
  by (simp add: reads_per_name_def same_per_name_def sample_adapter_def sample_Handler_def)

lemma two_name_conversion:
  "ProxyEventToHTTPRequest sample_adapter two_name_event =
     Inr \<lparr>Method = ''POST'', RequestURI = ''/echo'', Host = ''example.org'',
          Header = [(''X-A'', [''1'']), (''X-B'', [''2''])], Body_reader = Inr ''hello'',
          RemoteAddr = ''10.0.0.1:80''\<rparr>"
  "ProxyEventToHTTPRequest order_adapter two_name_event =
     Inr \<lparr>Method = ''POST'', RequestURI = ''/echo'', Host = ''example.org'',
          Header = [(''X-A'', [''1'']), (''X-B'', [''2''])], Body_reader = Inr ''hello'',
          RemoteAddr = ''10.0.0.1:80''\<rparr>"
  by (simp_all add: order_adapter_def sample_adapter_def sample_EventToRequest_def
      two_name_event_def sample_event_def)

lemma two_orders:
  "same_map [(''X-A'', [''1'']), (''X-B'', [''2''])] [(''X-A'', [''1'']), (''X-B'', [''2''])]"
  "same_map [(''X-A'', [''1'']), (''X-B'', [''2''])] [(''X-B'', [''2'']), (''X-A'', [''1''])]"
  by (auto simp: same_map_def)

lemma Proxy_visiting_two_name:
  "Proxy_visiting sample_externals order_adapter hs two_name_event pool =
     proxyInternal sample_externals order_adapter
       (Inr \<lparr>Method = ''POST'', RequestURI = ''/echo'', Host = ''example.org'',
          Header = hs, Body_reader = Inr ''hello'', RemoteAddr = ''10.0.0.1:80''\<rparr>) pool"
  by (simp add: Proxy_visiting_def revisit_def two_name_conversion(2))

lemma order_adapter_body:
  "fst (proxyInternal sample_externals order_adapter
       (Inr \<lparr>Method = ''POST'', RequestURI = ''/echo'', Host = ''example.org'',
          Header = hs, Body_reader = Inr ''hello'', RemoteAddr = ''10.0.0.1:80''\<rparr>) (Request_zero # pool))
   = (\<lparr>StatusCode = 200, StatusDescription = [], Headers = [], MultiValueHeaders = [],
        Body = concat (map snd (req_header (range_Header hs
          (SetHost ''example.org'' (SetRequestURI ''/echo'' (SetMethod ''POST''
             (BodyWriter_Write ''hello'' (SetContentLength 5 Request_zero)))))))),
        IsBase64Encoded = False\<rparr>, None)"
  by (simp add: proxyInternal_fst adaptor_writer AcquireRequest_def adaptor_body_def Let_def
      sample_externals_def sample_ResolveTCPAddr_def sample_GetProxyResponse_def
      order_adapter_def order_Handler_def Init_def WriteHeader_def Write_def
      NewProxyResponseWriterALB_def)

lemma order_adapter_ab:
  "concat (map snd (req_header (range_Header [(''X-A'', [''1'']), (''X-B'', [''2''])]
          (SetHost ''example.org'' (SetRequestURI ''/echo'' (SetMethod ''POST''
             (BodyWriter_Write ''hello'' (SetContentLength 5 Request_zero)))))))) = ''12''"
  "concat (map snd (req_header (range_Header [(''X-B'', [''2'']), (''X-A'', [''1''])]
          (SetHost ''example.org'' (SetRequestURI ''/echo'' (SetMethod ''POST''
             (BodyWriter_Write ''hello'' (SetContentLength 5 Request_zero)))))))) = ''21''"
  by (simp_all add: Header_Add_def Header_Set_def SetHost_def
      SetRequestURI_def SetMethod_def BodyWriter_Write_def SetContentLength_def Request_zero_def
      HeaderHost_def HeaderContentType_def HeaderUserAgent_def HeaderContentLength_def
      HeaderConnection_def)

text \<open>
  C6. Two runs. A call of \<open>Proxy\<close> leaves the pool behind, and it enters the
  \<open>range\<close> loop over the header map, whose order the runtime picks on each run.
  Starting from a pool of reset requests, let \<open>hs\<close> and \<open>hs'\<close> be two orders of the
  header map the conversion gives for the event. The second run, which visits in the
  order \<open>hs'\<close> on the pool the first run left, returns the same event and error as the
  first, which visits in the order \<open>hs\<close>, when the two runs visit in the same order or
  the handler reads the request per header name. The pool the first run leaves is again a
  pool of reset requests, and with the same order the effects are the same as well. The
  pool carries nothing from one call to the next.
\<close>

theorem Proxy_twice:
  assumes "pool_reset pool"
    and "\<And>r. ProxyEventToHTTPRequest f req = Inr r \<Longrightarrow>
           same_map (Header r) hs \<and> same_map (Header r) hs'"
    and "hs' = hs \<or> reads_per_name (app_Handler f)"
  shows "fst (Proxy_visiting x f hs' req (fst (snd (Proxy_visiting x f hs req pool))))
           = fst (Proxy_visiting x f hs req pool)
       \<and> pool_reset (fst (snd (Proxy_visiting x f hs req pool)))
       \<and> (hs' = hs \<longrightarrow>
            snd (snd (Proxy_visiting x f hs' req (fst (snd (Proxy_visiting x f hs req pool)))))
              = snd (snd (Proxy_visiting x f hs req pool)))"
proof -
  let ?pool1 = "fst (snd (Proxy_visiting x f hs req pool))"
  have p1: "pool_reset ?pool1" using assms(1) by (rule Proxy_visiting_pool_reset)
  have same: "fst (Proxy_visiting x f hs req ?pool1) = fst (Proxy_visiting x f hs req pool)
      \<and> snd (snd (Proxy_visiting x f hs req ?pool1)) = snd (snd (Proxy_visiting x f hs req pool))"
    using proxyInternal_any_reset_pool [OF assms(1) p1] by (simp add: Proxy_visiting_def)
  have "fst (Proxy_visiting x f hs' req ?pool1) = fst (Proxy_visiting x f hs req ?pool1)"
  proof (cases "hs' = hs")
    case True
    then show ?thesis by simp
  next
    case False
    with assms(3) have h: "reads_per_name (app_Handler f)" by simp
    show ?thesis
    proof (cases "ProxyEventToHTTPRequest f req")
      case (Inl err)
      then show ?thesis by (simp add: Proxy_visiting_def revisit_def)
    next
      case (Inr r)
      with assms(2) have "same_map hs hs'" by (auto simp: same_map_def)
      then have "fst (adaptor_body x f NewProxyResponseWriterALB (r\<lparr>Header := hs'\<rparr>) Request_zero)
          = fst (adaptor_body x f NewProxyResponseWriterALB (r\<lparr>Header := hs\<rparr>) Request_zero)"
        using h by (rule adaptor_body_revisit)
      then have "fst (adaptor x f NewProxyResponseWriterALB (r\<lparr>Header := hs'\<rparr>) ?pool1)
          = fst (adaptor x f NewProxyResponseWriterALB (r\<lparr>Header := hs\<rparr>) ?pool1)"
        using adaptor_reset_pool(1) [OF p1] by simp
      with Inr show ?thesis
        by (simp add: Proxy_visiting_def revisit_def proxyInternal_fst)
    qed
  qed
  with same p1 show ?thesis by simp
qed

theorem Proxy_twice_witness:
  "pool_reset []
   \<and> same_map [(''X-A'', [''1'']), (''X-B'', [''2''])] [(''X-B'', [''2'']), (''X-A'', [''1''])]
   \<and> reads_per_name (app_Handler sample_adapter)
   \<and> fst (Proxy_visiting sample_externals sample_adapter
            [(''X-B'', [''2'']), (''X-A'', [''1''])] two_name_event
            (fst (snd (Proxy_visiting sample_externals sample_adapter
               [(''X-A'', [''1'']), (''X-B'', [''2''])] two_name_event []))))
       = fst (Proxy_visiting sample_externals sample_adapter
            [(''X-A'', [''1'']), (''X-B'', [''2''])] two_name_event [])
   \<and> fst (Proxy_visiting sample_externals order_adapter
            [(''X-A'', [''1'']), (''X-B'', [''2''])] two_name_event
            (fst (snd (Proxy_visiting sample_externals order_adapter
               [(''X-A'', [''1'']), (''X-B'', [''2''])] two_name_event []))))
       = fst (Proxy_visiting sample_externals order_adapter
            [(''X-A'', [''1'']), (''X-B'', [''2''])] two_name_event [])"
proof -
  let ?ab = "[(''X-A'', [''1'']), (''X-B'', [''2''])]"
  let ?ba = "[(''X-B'', [''2'']), (''X-A'', [''1''])]"
  have h1: "pool_reset []" by (simp add: pool_reset_def)
  have h2: "same_map (Header r) ?ab \<and> same_map (Header r) ?ba"
    if "ProxyEventToHTTPRequest sample_adapter two_name_event = Inr r" for r
    using that two_orders by (auto simp: two_name_conversion(1))
  have h2': "same_map (Header r) ?ab \<and> same_map (Header r) ?ab"
    if "ProxyEventToHTTPRequest order_adapter two_name_event = Inr r" for r
    using that two_orders by (auto simp: two_name_conversion(2))
  have h3: "?ba = ?ab \<or> reads_per_name (app_Handler sample_adapter)"
    using sample_reads_per_name by simp
  have h3': "?ab = ?ab \<or> reads_per_name (app_Handler order_adapter)" by simp
  show ?thesis
    using h1 two_orders(2) sample_reads_per_name
      Proxy_twice [where x = sample_externals, OF h1 h2 h3]
      Proxy_twice [where x = sample_externals, OF h1 h2' h3']
    by simp
qed

text \<open>
  Without that condition the two runs need not agree. \<open>order_Handler\<close> is a function
  of its request context. On the event with the header names \<open>X-A\<close> and \<open>X-B\<close>, the
  run of \<open>Proxy\<close> that visits \<open>X-A\<close> first returns the body \<open>12\<close>; the run that
  visits \<open>X-B\<close> first, on the pool the first run left (one reset request), returns the
  body \<open>21\<close>: \<open>Header.Add\<close> appends in the order of the visits.
\<close>

theorem Proxy_twice_counterexample:
  "ProxyEventToHTTPRequest order_adapter two_name_event =
     Inr \<lparr>Method = ''POST'', RequestURI = ''/echo'', Host = ''example.org'',
          Header = [(''X-A'', [''1'']), (''X-B'', [''2''])], Body_reader = Inr ''hello'',
          RemoteAddr = ''10.0.0.1:80''\<rparr>
   \<and> same_map [(''X-A'', [''1'']), (''X-B'', [''2''])] [(''X-B'', [''2'']), (''X-A'', [''1''])]
   \<and> Proxy sample_externals order_adapter two_name_event []
       = Proxy_visiting sample_externals order_adapter
           [(''X-A'', [''1'']), (''X-B'', [''2''])] two_name_event []
   \<and> fst (Proxy_visiting sample_externals order_adapter
            [(''X-A'', [''1'']), (''X-B'', [''2''])] two_name_event [])
       = (\<lparr>StatusCode = 200, StatusDescription = [], Headers = [], MultiValueHeaders = [],
           Body = ''12'', IsBase64Encoded = False\<rparr>, None)
   \<and> fst (snd (Proxy_visiting sample_externals order_adapter
            [(''X-A'', [''1'']), (''X-B'', [''2''])] two_name_event [])) = [Request_zero]
   \<and> fst (Proxy_visiting sample_externals order_adapter
            [(''X-B'', [''2'']), (''X-A'', [''1''])] two_name_event [Request_zero])
       = (\<lparr>StatusCode = 200, StatusDescription = [], Headers = [], MultiValueHeaders = [],
           Body = ''21'', IsBase64Encoded = False\<rparr>, None)
   \<and> fst (Proxy_visiting sample_externals order_adapter
            [(''X-B'', [''2'']), (''X-A'', [''1''])] two_name_event
            (fst (snd (Proxy_visiting sample_externals order_adapter
               [(''X-A'', [''1'']), (''X-B'', [''2''])] two_name_event []))))
       \<noteq> fst (Proxy_visiting sample_externals order_adapter
            [(''X-A'', [''1'']), (''X-B'', [''2''])] two_name_event [])"
proof -
  let ?ab = "[(''X-A'', [''1'']), (''X-B'', [''2''])]"
  let ?ba = "[(''X-B'', [''2'']), (''X-A'', [''1''])]"
  have own: "Proxy sample_externals order_adapter two_name_event []
      = Proxy_visiting sample_externals order_adapter ?ab two_name_event []"
    using Proxy_visiting_Header [OF two_name_conversion(2), of sample_externals "[]"] by simp
  have pool1: "fst (snd (Proxy_visiting sample_externals order_adapter ?ab two_name_event []))
      = [Request_zero]"
    by (simp add: Proxy_visiting_two_name proxyInternal_pool AcquireRequest_def)
  have first: "fst (Proxy_visiting sample_externals order_adapter ?ab two_name_event [])
      = (\<lparr>StatusCode = 200, StatusDescription = [], Headers = [], MultiValueHeaders = [],
          Body = ''12'', IsBase64Encoded = False\<rparr>, None)"
  proof -
    have "pool_reset [Request_zero]" "pool_reset []" by (simp_all add: pool_reset_def)
    then have "fst (proxyInternal sample_externals order_adapter conv [])
        = fst (proxyInternal sample_externals order_adapter conv [Request_zero])" for conv
      using proxyInternal_any_reset_pool by blast
    then show ?thesis
      by (simp only: Proxy_visiting_two_name order_adapter_body order_adapter_ab)
  qed
  have second: "fst (Proxy_visiting sample_externals order_adapter ?ba two_name_event
        [Request_zero])
      = (\<lparr>StatusCode = 200, StatusDescription = [], Headers = [], MultiValueHeaders = [],
          Body = ''21'', IsBase64Encoded = False\<rparr>, None)"
    by (simp only: Proxy_visiting_two_name order_adapter_body order_adapter_ab)
  show ?thesis
    using two_name_conversion(2) two_orders(2) own pool1 first second by simp
qed







text \<open>
  C9. The 500 path is not an error of the call. When the conversion succeeds and
  \<open>adaptor\<close> takes the \<open>http.Error\<close> path (the body cannot be read, or the remote
  address does not resolve), and \<open>GetProxyResponse\<close> builds an event from every writer
  that has a status, \<open>Proxy\<close> returns an event with status 500 and a nil error; the
  handler has not been called.
\<close>

theorem Proxy_internal_error_nil_error:
  assumes "ProxyEventToHTTPRequest f req = Inr r"
    and "(\<exists>e. Body_reader r = Inl e) \<or> (\<exists>e. ResolveTCPAddr x (RemoteAddr r) = Inl e)"
    and "captures_status x"
  shows "\<exists>resp. fst (Proxy x f req pool) = (resp, None) \<and> StatusCode resp = 500
     \<and> snd (snd (Proxy x f req pool)) = [Acquire, Release]"
proof -
  let ?w = "fst (adaptor x f NewProxyResponseWriterALB r pool)"
  have st: "w_status ?w = Some 500"
    and effs: "snd (snd (adaptor x f NewProxyResponseWriterALB r pool)) = [Acquire, Release]"
    using adaptor_failure_status [OF assms(2), of f NewProxyResponseWriterALB
        "fst (AcquireRequest pool)"]
    by (simp_all add: adaptor_writer adaptor_effects)
  from st assms(3) obtain resp where
    resp: "GetProxyResponse x ?w = Inr resp" "StatusCode resp = 500"
    unfolding captures_status_def by blast
  show ?thesis
    using proxyInternal_success [OF resp(1)] resp(2) effs assms(1) by (simp add: Proxy_def)
qed

theorem Proxy_internal_error_nil_error_witness:
  "captures_status sample_externals
   \<and> ProxyEventToHTTPRequest unresolved_adapter sample_event = Inr unresolved_request
   \<and> ResolveTCPAddr sample_externals (RemoteAddr unresolved_request)
       = Inl (GoError ''missing port in address'')
   \<and> (\<exists>resp. fst (Proxy sample_externals unresolved_adapter sample_event []) = (resp, None)
         \<and> StatusCode resp = 500)
   \<and> ProxyEventToHTTPRequest unread_adapter sample_event = Inr unread_request
   \<and> Body_reader unread_request = Inl (GoError ''unexpected EOF'')
   \<and> (\<exists>resp. fst (Proxy sample_externals unread_adapter sample_event []) = (resp, None)
         \<and> StatusCode resp = 500)"
proof -
  have c1: "ProxyEventToHTTPRequest unresolved_adapter sample_event = Inr unresolved_request"
    by (simp add: unresolved_adapter_def)
  have c2: "ProxyEventToHTTPRequest unread_adapter sample_event = Inr unread_request"
    by (simp add: unread_adapter_def)
  have r1: "ResolveTCPAddr sample_externals (RemoteAddr unresolved_request)
       = Inl (GoError ''missing port in address'')"
    by (simp add: unresolved_request_def sample_externals_def sample_ResolveTCPAddr_def)
  have r2: "Body_reader unread_request = Inl (GoError ''unexpected EOF'')"
    by (simp add: unread_request_def)
  have d1: "(\<exists>e. Body_reader unresolved_request = Inl e)
      \<or> (\<exists>e. ResolveTCPAddr sample_externals (RemoteAddr unresolved_request) = Inl e)"
    using r1 by blast
  have d2: "(\<exists>e. Body_reader unread_request = Inl e)
      \<or> (\<exists>e. ResolveTCPAddr sample_externals (RemoteAddr unread_request) = Inl e)"
    using r2 by blast
  show ?thesis
    using c1 c2 r1 r2 sample_captures(1)
      Proxy_internal_error_nil_error [OF c1 d1 sample_captures(1), of "[]"]
      Proxy_internal_error_nil_error [OF c2 d2 sample_captures(1), of "[]"]
    by blast
qed

end
